theory Spec2Isabelle
  imports
    Complex_Main
    "HOL-Library.Char_ord"
    "HOL-Library.List_Lexorder"
    "HOL-Library.Option_ord"
begin

section \<open>Conventions of the embedding\<close>

text \<open>
  The two programs are Python. A Python \<^verbatim>\<open>float\<close> that holds a finite value is
  modelled by the real number it denotes, and the arithmetic on it is exact; the
  constant \<^verbatim>\<open>1e-12\<close> is the real \<open>1 / 10 ^ 12\<close>. An \<^verbatim>\<open>Optional[float]\<close> is a
  \<open>real option\<close>. A raised exception is a value \<open>Inl e\<close> of a sum type, a
  normal return is \<open>Inr v\<close>.
\<close>

datatype error =
    ZeroDivisionError
  | ValueError
  | OverflowError
  | TypeError
  | OSError
  | RequestException
  | KeyboardInterrupt

text \<open>
  \<^verbatim>\<open>except Exception\<close> catches every exception of the model but
  \<^verbatim>\<open>KeyboardInterrupt\<close>, which derives from \<^verbatim>\<open>BaseException\<close> only.
\<close>

fun is_Exception :: "error \<Rightarrow> bool" where
  "is_Exception KeyboardInterrupt = False"
| "is_Exception e = True"

section \<open>GeofenceFilter (flight\_mil\_ita.py)\<close>

type_synonym point = "real \<times> real"      \<comment> \<open>\<open>(lat, lon)\<close>\<close>
type_synonym ring = "point list"
type_synonym polygon = "ring list"        \<comment> \<open>outer ring first, then the holes\<close>

definition eps :: real where
  "eps = 1 / 10 ^ 12"

text \<open>
  One iteration of the loop of \<^verbatim>\<open>point_in_ring\<close>, for index \<open>i\<close>. Python evaluates
  the right operand of \<^verbatim>\<open>and\<close> only when the left one is true, so the division is
  performed exactly on the edges that straddle the latitude \<open>y\<close>; a float division
  by zero raises \<^verbatim>\<open>ZeroDivisionError\<close>.
\<close>

definition edge_step :: "point \<Rightarrow> ring \<Rightarrow> nat \<Rightarrow> bool \<Rightarrow> error + bool" where
  "edge_step point ring i inside =
     (let x = snd point; y = fst point;
          n = length ring;
          yi = fst (ring ! i); xi = snd (ring ! i);
          yj = fst (ring ! ((i + 1) mod n)); xj = snd (ring ! ((i + 1) mod n))
      in if (yi > y) \<noteq> (yj > y) then
           (if yj - yi + eps = 0 then Inl ZeroDivisionError
            else if x < (xj - xi) * (y - yi) / (yj - yi + eps) + xi then Inr (\<not> inside)
            else Inr inside)
         else Inr inside)"

fun for_edges :: "point \<Rightarrow> ring \<Rightarrow> nat list \<Rightarrow> bool \<Rightarrow> error + bool" where
  "for_edges point ring [] inside = Inr inside"
| "for_edges point ring (i # idx) inside =
     (case edge_step point ring i inside of
        Inl e \<Rightarrow> Inl e
      | Inr b \<Rightarrow> for_edges point ring idx b)"

definition point_in_ring :: "point \<Rightarrow> ring \<Rightarrow> error + bool" where
  "point_in_ring point ring = for_edges point ring [0 ..< length ring] False"

text \<open>The loop over \<^verbatim>\<open>polygon[1:]\<close>: the first hole that holds the point ends it.\<close>

fun for_holes :: "point \<Rightarrow> ring list \<Rightarrow> error + bool" where
  "for_holes point [] = Inr True"
| "for_holes point (hole # holes) =
     (case point_in_ring point hole of
        Inl e \<Rightarrow> Inl e
      | Inr True \<Rightarrow> Inr False
      | Inr False \<Rightarrow> for_holes point holes)"

fun point_in_polygon :: "point \<Rightarrow> polygon \<Rightarrow> error + bool" where
  "point_in_polygon point [] = Inr False"
| "point_in_polygon point (outer # holes) =
     (case point_in_ring point outer of
        Inl e \<Rightarrow> Inl e
      | Inr False \<Rightarrow> Inr False
      | Inr True \<Rightarrow> for_holes point holes)"

text \<open>\<^verbatim>\<open>any(...)\<close> over a generator: it stops at the first polygon that holds the point.\<close>

fun any_polygon :: "point \<Rightarrow> polygon list \<Rightarrow> error + bool" where
  "any_polygon pt [] = Inr False"
| "any_polygon pt (poly # polygons) =
     (case point_in_polygon pt poly of
        Inl e \<Rightarrow> Inl e
      | Inr True \<Rightarrow> Inr True
      | Inr False \<Rightarrow> any_polygon pt polygons)"

fun in_any_polygon :: "real option \<Rightarrow> real option \<Rightarrow> polygon list \<Rightarrow> error + bool" where
  "in_any_polygon None lon polygons = Inr False"
| "in_any_polygon (Some lat) None polygons = Inr False"
| "in_any_polygon (Some lat) (Some lon) polygons = any_polygon (lat, lon) polygons"

section \<open>Poller (flight\_mil\_ita.py)\<close>

subsection \<open>Observations\<close>

record aircraft =
  hex :: string
  flight :: string
  lat :: "real option"
  lon :: "real option"
  alt_baro :: "int option"
  gs :: "real option"
  ts :: "real option"
  reg :: "string option"
  squawk :: "string option"
  ground :: "bool option"
  model_desc :: "string option"
  model_t :: "string option"
  is_mil :: bool

text \<open>Python truthiness of the optional values the poller tests.\<close>

fun truthy_float :: "real option \<Rightarrow> bool" where
  "truthy_float None = False"
| "truthy_float (Some v) = (v \<noteq> 0)"

fun truthy_int :: "int option \<Rightarrow> bool" where
  "truthy_int None = False"
| "truthy_int (Some v) = (v \<noteq> 0)"

fun truthy_str :: "string option \<Rightarrow> bool" where
  "truthy_str None = False"
| "truthy_str (Some s) = (s \<noteq> [])"

subsection \<open>The geofence step of the cycle\<close>

text \<open>
  The condition of the list comprehension,
  \<^verbatim>\<open>ac.lat and ac.lon and in_any_polygon(ac.lat, ac.lon, polygons)\<close>:
  \<^verbatim>\<open>in_any_polygon\<close> is called only when both coordinates are truthy.
\<close>

definition geofence_keep :: "polygon list \<Rightarrow> aircraft \<Rightarrow> error + bool" where
  "geofence_keep polys ac =
     (if truthy_float (lat ac) then
        (if truthy_float (lon ac) then in_any_polygon (lat ac) (lon ac) polys
         else Inr False)
      else Inr False)"

fun filter_aircraft :: "polygon list \<Rightarrow> aircraft list \<Rightarrow> error + aircraft list" where
  "filter_aircraft polys [] = Inr []"
| "filter_aircraft polys (ac # acs) =
     (case geofence_keep polys ac of
        Inl e \<Rightarrow> Inl e
      | Inr keep \<Rightarrow>
          (case filter_aircraft polys acs of
             Inl e \<Rightarrow> Inl e
           | Inr kept \<Rightarrow> Inr (if keep then ac # kept else kept)))"

definition geofence_step :: "polygon list \<Rightarrow> aircraft list \<Rightarrow> error + aircraft list" where
  "geofence_step polys acs = (if polys \<noteq> [] then filter_aircraft polys acs else Inr acs)"

subsection \<open>Alert payload\<close>

definition model_line :: "aircraft \<Rightarrow> string option" where
  "model_line ac =
     (if truthy_str (model_desc ac) then Some (''MODEL: '' @ the (model_desc ac))
      else if truthy_str (model_t ac) then Some (''MODEL: '' @ the (model_t ac))
      else None)"

definition make_links :: "aircraft \<Rightarrow> string list" where
  "make_links ac =
     (if hex ac \<noteq> [] then
        [''[ADSB.fi](https://globe.adsb.fi/?icao='' @ hex ac @ '')'',
         ''[ADSB Exchange](https://globe.adsbexchange.com/?icao='' @ hex ac @ '')'',
         ''[Planespotters](https://www.planespotters.net/hex/'' @ hex ac @ '')'']
      else []) @
     (if flight ac \<noteq> [] then
        [''[FlightAware](https://www.flightaware.com/it-IT/flight/'' @ flight ac @ '')'']
      else []) @
     (if truthy_str (reg ac) then
        [''[AirHistory](https://www.airhistory.net/marks-all/'' @ the (reg ac) @ '')'',
         ''[JetPhotos](https://www.jetphotos.com/registration/'' @ the (reg ac) @ '')'']
      else [])"

definition msg_lines :: "aircraft \<Rightarrow> string list" where
  "msg_lines ac =
     [''MIL'', ''HEX: #'' @ hex ac,
      ''FLT: #'' @ (if flight ac \<noteq> [] then flight ac else ''-'')] @
     (if truthy_str (reg ac) then [''REG: #'' @ the (reg ac)] else []) @
     (case model_line ac of Some ml \<Rightarrow> [ml] | None \<Rightarrow> []) @
     [''Flag: military''] @
     (if make_links ac \<noteq> [] then [] # make_links ac else [])"

text \<open>
  An emitted alert: the printed lines, with the identifier and the clock reading
  \<^verbatim>\<open>now_ts\<close> that the loop records for it in \<^verbatim>\<open>last_mil_alert\<close>.
\<close>

record alert =
  alert_hex :: string
  alert_time :: real
  alert_msg :: "string list"

text \<open>The dictionary \<^verbatim>\<open>row\<close>; \<^verbatim>\<open>v or ""\<close> leaves a blank for a falsy value.\<close>

record event_row =
  row_first_seen_utc :: string
  row_hex :: string
  row_callsign :: string
  row_reg :: string
  row_model_t :: string
  row_lat :: "real option"
  row_lon :: "real option"
  row_alt_ft :: "int option"
  row_gs_kt :: "real option"
  row_squawk :: string
  row_ground :: "bool option"

definition or_blank_str :: "string option \<Rightarrow> string" where
  "or_blank_str v = (if truthy_str v then the v else [])"

definition or_blank_float :: "real option \<Rightarrow> real option" where
  "or_blank_float v = (if truthy_float v then v else None)"

definition or_blank_int :: "int option \<Rightarrow> int option" where
  "or_blank_int v = (if truthy_int v then v else None)"

definition make_row :: "string \<Rightarrow> aircraft \<Rightarrow> event_row" where
  "make_row now_str ac =
     \<lparr>row_first_seen_utc = now_str, row_hex = hex ac,
      row_callsign = flight ac, row_reg = or_blank_str (reg ac),
      row_model_t = or_blank_str (model_t ac),
      row_lat = or_blank_float (lat ac), row_lon = or_blank_float (lon ac),
      row_alt_ft = or_blank_int (alt_baro ac), row_gs_kt = or_blank_float (gs ac),
      row_squawk = or_blank_str (squawk ac), row_ground = ground ac\<rparr>"

subsection \<open>DebounceTracker: the loop over the aircraft of a cycle\<close>

type_synonym debounce = "string \<rightharpoonup> real"

text \<open>\<^verbatim>\<open>last_mil_alert.get(ac.hex, 0)\<close>\<close>

definition last_alert_get :: "debounce \<Rightarrow> string \<Rightarrow> real" where
  "last_alert_get last_mil_alert h = (case last_mil_alert h of None \<Rightarrow> 0 | Some t \<Rightarrow> t)"

text \<open>The test that makes the loop \<^verbatim>\<open>continue\<close>, with no alert.\<close>

definition in_cooldown :: "int \<Rightarrow> debounce \<Rightarrow> string \<Rightarrow> real \<Rightarrow> bool" where
  "in_cooldown mil_cooldown last_mil_alert h now_ts =
     (now_ts - last_alert_get last_mil_alert h < real_of_int mil_cooldown)"

text \<open>
  Each aircraft comes with the value that \<^verbatim>\<open>time.time()\<close> returns in its iteration.
  The result is the debounce map after the loop, the rows and the alerts in the order
  they were produced.
\<close>

fun for_aircraft ::
  "int \<Rightarrow> string \<Rightarrow> (aircraft \<times> real) list \<Rightarrow> debounce
     \<Rightarrow> debounce \<times> event_row list \<times> alert list" where
  "for_aircraft mil_cooldown now_str [] last_mil_alert = (last_mil_alert, [], [])"
| "for_aircraft mil_cooldown now_str ((ac, now_ts) # rest) last_mil_alert =
     (if in_cooldown mil_cooldown last_mil_alert (hex ac) now_ts
      then for_aircraft mil_cooldown now_str rest last_mil_alert
      else
        (case for_aircraft mil_cooldown now_str rest (last_mil_alert(hex ac \<mapsto> now_ts)) of
           (last', rows, alerts) \<Rightarrow>
             (last', make_row now_str ac # rows,
              \<lparr>alert_hex = hex ac, alert_time = now_ts, alert_msg = msg_lines ac\<rparr> # alerts)))"

subsection \<open>The feed client with retries\<close>

datatype json =
    JNull
  | JBool bool
  | JInt int
  | JFloat real
  | JStr string
  | JArr "json list"
  | JObj "(string \<times> json) list"

definition API_MIL :: string where
  "API_MIL = ''https://opendata.adsb.fi/api/v2/mil''"

definition HTTP_RETRIES :: nat where
  "HTTP_RETRIES = 2"

definition HTTP_BACKOFF :: real where
  "HTTP_BACKOFF = 2"

text \<open>
  What one attempt gets from \<^verbatim>\<open>requests.get\<close>, \<^verbatim>\<open>raise_for_status\<close> and
  \<^verbatim>\<open>r.json()\<close>: an exception, or the decoded body.
\<close>

datatype http_outcome = Raises error | Returns json

fun falsy :: "json \<Rightarrow> bool" where
  "falsy JNull = True"
| "falsy (JBool b) = (\<not> b)"
| "falsy (JInt n) = (n = 0)"
| "falsy (JFloat v) = (v = 0)"
| "falsy (JStr s) = (s = [])"
| "falsy (JArr xs) = (xs = [])"
| "falsy (JObj kvs) = (kvs = [])"

text \<open>\<^verbatim>\<open>ac["force_mil"] = True\<close> on a dictionary, whose keys are distinct.\<close>

fun dict_set :: "string \<Rightarrow> json \<Rightarrow> (string \<times> json) list \<Rightarrow> (string \<times> json) list" where
  "dict_set k v [] = [(k, v)]"
| "dict_set k v ((k', v') # kvs) =
     (if k = k' then (k, v) # kvs else (k', v') # dict_set k v kvs)"

fun force_mil :: "json \<Rightarrow> json" where
  "force_mil (JObj kvs) = JObj (dict_set ''force_mil'' (JBool True) kvs)"
| "force_mil j = j"

text \<open>
  The loop \<^verbatim>\<open>for ac in data\<close> of \<^verbatim>\<open>fetch_military\<close>: a list has its dictionaries
  marked; a string or a dictionary is iterated with nothing to mark; any other value
  is not iterable.
\<close>

fun mark_all :: "json \<Rightarrow> error + json" where
  "mark_all (JArr xs) = Inr (JArr (map force_mil xs))"
| "mark_all (JStr s) = Inr (JStr s)"
| "mark_all (JObj kvs) = Inr (JObj kvs)"
| "mark_all j = Inl TypeError"

fun select_data :: "json \<Rightarrow> error + json" where
  "select_data (JObj kvs) =
     (case map_of kvs ''ac'' of
        Some data \<Rightarrow> mark_all data
      | None \<Rightarrow>
          (case map_of kvs ''aircraft'' of
             Some data \<Rightarrow> mark_all data
           | None \<Rightarrow> Inr (JArr [])))"
| "select_data (JArr xs) = mark_all (JArr xs)"
| "select_data j = Inr (JArr [])"

text \<open>The body of the \<^verbatim>\<open>try\<close>.\<close>

fun try_body :: "http_outcome \<Rightarrow> error + json" where
  "try_body (Raises e) = Inl e"
| "try_body (Returns j) = select_data (if falsy j then JObj [] else j)"

datatype effect = Sleep real | Warn_fetch "error option"

text \<open>
  The loop \<^verbatim>\<open>for attempt in range(HTTP_RETRIES + 1)\<close> and what follows it. The
  second component is what the function did besides returning: the calls of
  \<^verbatim>\<open>time.sleep\<close> and the warning on \<^verbatim>\<open>stderr\<close> with \<^verbatim>\<open>last_exc\<close>.
\<close>

fun retry_loop ::
  "(nat \<Rightarrow> http_outcome) \<Rightarrow> nat list \<Rightarrow> error option \<Rightarrow> (error + json) \<times> effect list" where
  "retry_loop http [] last_exc = (Inr (JArr []), [Warn_fetch last_exc])"
| "retry_loop http (attempt # rest) last_exc =
     (case try_body (http attempt) of
        Inr data \<Rightarrow> (Inr data, [])
      | Inl e \<Rightarrow>
          (if is_Exception e then
             (case retry_loop http rest (Some e) of
                (r, effs) \<Rightarrow>
                  (r, (if attempt < HTTP_RETRIES
                       then [Sleep (HTTP_BACKOFF * (real attempt + 1))] else []) @ effs))
           else (Inl e, [])))"

text \<open>
  \<^verbatim>\<open>api_rate_guard()\<close> is called before the \<^verbatim>\<open>try\<close>: an exception it raises (the
  lock file cannot be opened) leaves \<^verbatim>\<open>fetch_military\<close>. Its own waiting is not
  part of the model.
\<close>

definition fetch_military ::
  "error option \<Rightarrow> (nat \<Rightarrow> http_outcome) \<Rightarrow> (error + json) \<times> effect list" where
  "fetch_military guard http =
     (case guard of
        Some e \<Rightarrow> (Inl e, [])
      | None \<Rightarrow> retry_loop http [0 ..< HTTP_RETRIES + 1] None)"

subsection \<open>One cycle and the loop of \<^verbatim>\<open>main\<close>\<close>

record config =
  interval :: int
  mil_cooldown :: int
  polygons :: "polygon list"

text \<open>What a cycle reads from outside the program.\<close>

record cycle_env =
  rate_guard :: "error option"
  http :: "nat \<Rightarrow> http_outcome"
  t0 :: real
  now_str :: string
  loop_clock :: "nat \<Rightarrow> real"   \<comment> \<open>\<^verbatim>\<open>time.time()\<close> in the k-th iteration over the aircraft\<close>
  t_end :: real

record cycle_out =
  out_log :: "effect list"
  out_alerts :: "alert list"
  out_rows :: "event_row list"
  out_csv_append :: "event_row list option"
  out_sleep :: int

text \<open>\<^verbatim>\<open>for ac in merged\<close>: the elements that the iteration yields.\<close>

fun iter_json :: "json \<Rightarrow> json list" where
  "iter_json (JArr xs) = xs"
| "iter_json (JObj kvs) = map (\<lambda>kv. JStr (fst kv)) kvs"
| "iter_json (JStr s) = map (\<lambda>c. JStr [c]) s"
| "iter_json j = []"

text \<open>\<^verbatim>\<open>round\<close> of a float: to the nearest integer, a tie to the even one.\<close>

definition py_round :: "real \<Rightarrow> int" where
  "py_round v =
     (let f = \<lfloor>v\<rfloor>; d = v - real_of_int f
      in if d < 1 / 2 then f else if 1 / 2 < d then f + 1
         else if even f then f else f + 1)"

text \<open>
  The body of \<^verbatim>\<open>while True\<close>. The construction of an \<^verbatim>\<open>Aircraft\<close> from a raw record
  (with \<^verbatim>\<open>except Exception: continue\<close> around it) is the parameter \<open>make_aircraft\<close>:
  \<open>None\<close> is a record that is skipped.
\<close>

definition poll_cycle ::
  "(json \<Rightarrow> aircraft option) \<Rightarrow> config \<Rightarrow> cycle_env \<Rightarrow> debounce
     \<Rightarrow> error + (debounce \<times> cycle_out)" where
  "poll_cycle make_aircraft args env last_mil_alert =
     (case fetch_military (rate_guard env) (http env) of
        (Inl e, effs) \<Rightarrow> Inl e
      | (Inr merged, effs) \<Rightarrow>
          (case geofence_step (polygons args) (List.map_filter make_aircraft (iter_json merged)) of
             Inl e \<Rightarrow> Inl e
           | Inr acs \<Rightarrow>
               (case for_aircraft (mil_cooldown args) (now_str env)
                       (zip acs (map (loop_clock env) [0 ..< length acs])) last_mil_alert of
                  (last', event_rows, alerts) \<Rightarrow>
                    Inr (last',
                         \<lparr>out_log = effs, out_alerts = alerts, out_rows = event_rows,
                          out_csv_append = (if event_rows \<noteq> [] then Some event_rows else None),
                          out_sleep =
                            max 1 (py_round (real_of_int (interval args) - (t_end env - t0 env)))\<rparr>))))"

text \<open>
  The first cycles of the endless loop, one environment for each. An exception that
  leaves a cycle ends the program.
\<close>

fun main_loop ::
  "(json \<Rightarrow> aircraft option) \<Rightarrow> config \<Rightarrow> cycle_env list \<Rightarrow> debounce
     \<Rightarrow> error + (debounce \<times> cycle_out list)" where
  "main_loop make_aircraft args [] last_mil_alert = Inr (last_mil_alert, [])"
| "main_loop make_aircraft args (env # envs) last_mil_alert =
     (case poll_cycle make_aircraft args env last_mil_alert of
        Inl e \<Rightarrow> Inl e
      | Inr (last', out) \<Rightarrow>
          (case main_loop make_aircraft args envs last' of
             Inl e \<Rightarrow> Inl e
           | Inr (last'', outs) \<Rightarrow> Inr (last'', out # outs)))"

subsection \<open>The alerts of a run\<close>

text \<open>The identifier and the recorded time of each alert, in the order of emission.\<close>

definition alert_keys :: "alert list \<Rightarrow> (string \<times> real) list" where
  "alert_keys als = map (\<lambda>a. (alert_hex a, alert_time a)) als"

text \<open>
  No two alerts for one identifier have recorded times less than \<open>c\<close> apart.
\<close>

definition spaced :: "real \<Rightarrow> (string \<times> real) list \<Rightarrow> bool" where
  "spaced c ks =
     (\<forall>i j. i < j \<and> j < length ks \<and> fst (ks ! i) = fst (ks ! j)
        \<longrightarrow> c \<le> \<bar>snd (ks ! j) - snd (ks ! i)\<bar>)"

text \<open>
  What the loop keeps true of the debounce map and the alerts emitted so far: the map
  holds the time of the latest alert of each identifier and nothing else; with a
  positive cooldown no alert of an identifier is later than the time in the map; the
  alerts are spaced.
\<close>

definition debounce_inv :: "real \<Rightarrow> debounce \<Rightarrow> (string \<times> real) list \<Rightarrow> bool" where
  "debounce_inv c last_mil_alert ks =
     ((\<forall>h. last_mil_alert h = map_of (rev ks) h) \<and>
      (0 < c \<longrightarrow> (\<forall>k \<in> set ks. \<exists>t'. last_mil_alert (fst k) = Some t' \<and> snd k \<le> t')) \<and>
      spaced c ks)"

section \<open>EventStore (publish\_adsb\_report.py)\<close>

text \<open>
  A row of the table \<^verbatim>\<open>events\<close>, and also a row that \<^verbatim>\<open>csv.DictReader\<close> yields:
  \<^verbatim>\<open>r.get(column)\<close> is the text of the field, or \<^verbatim>\<open>None\<close> when the line has fewer
  fields than the header or the header has no such column; \<^verbatim>\<open>None\<close> is stored as
  the SQL \<^verbatim>\<open>NULL\<close>. The two columns of the primary key have type \<^verbatim>\<open>TEXT\<close> and keep the
  text as it is. The text of a timestamp is made of ASCII characters.
\<close>

record event =
  ev_first_seen_utc :: "string option"
  ev_hex :: "string option"
  ev_callsign :: "string option"
  ev_reg :: "string option"
  ev_model_t :: "string option"
  ev_lat :: "string option"
  ev_lon :: "string option"
  ev_alt_ft :: "string option"
  ev_gs_kt :: "string option"
  ev_squawk :: "string option"
  ev_ground :: "string option"

text \<open>
  \<^verbatim>\<open>PRIMARY KEY (first_seen_utc, hex)\<close> of an ordinary SQLite table, with no
  \<^verbatim>\<open>NOT NULL\<close>: SQLite admits \<^verbatim>\<open>NULL\<close> in such a key, and for uniqueness a \<^verbatim>\<open>NULL\<close>
  is distinct from every value, another \<^verbatim>\<open>NULL\<close> included. A new row conflicts with
  a stored one when both columns of both rows are present and equal.
\<close>

definition key_conflict :: "event \<Rightarrow> event \<Rightarrow> bool" where
  "key_conflict new old =
     (ev_first_seen_utc new \<noteq> None \<and> ev_hex new \<noteq> None \<and>
      ev_first_seen_utc new = ev_first_seen_utc old \<and> ev_hex new = ev_hex old)"

text \<open>A row that has both columns of the key.\<close>

definition keyed :: "event \<Rightarrow> bool" where
  "keyed r = (ev_first_seen_utc r \<noteq> None \<and> ev_hex r \<noteq> None)"

text \<open>\<^verbatim>\<open>INSERT OR IGNORE\<close>: the table as the list of its rows in the order of insertion.\<close>

definition insert_or_ignore :: "event list \<Rightarrow> event \<Rightarrow> event list" where
  "insert_or_ignore tbl r = (if list_ex (key_conflict r) tbl then tbl else tbl @ [r])"

fun insert_rows :: "event list \<Rightarrow> event list \<Rightarrow> event list" where
  "insert_rows [] tbl = tbl"
| "insert_rows (r # rows) tbl = insert_rows rows (insert_or_ignore tbl r)"

text \<open>\<^verbatim>\<open>CREATE TABLE IF NOT EXISTS\<close>; \<open>None\<close> is a database without the table.\<close>

fun init_db :: "event list option \<Rightarrow> event list" where
  "init_db None = []"
| "init_db (Some tbl) = tbl"

text \<open>
  \<^verbatim>\<open>csv_to_db\<close>; the CSV is \<open>None\<close> when there is no file at the path, and the
  list of the rows after the header otherwise. The function prints one line in each
  case and returns nothing; the model gives the table it leaves.
\<close>

fun csv_to_db :: "event list option \<Rightarrow> event list \<Rightarrow> event list" where
  "csv_to_db None tbl = tbl"
| "csv_to_db (Some []) tbl = tbl"
| "csv_to_db (Some rows) tbl = insert_rows rows tbl"

text \<open>
  \<^verbatim>\<open>substr(first_seen_utc,1,10) BETWEEN ? AND ?\<close>: a comparison of texts, byte by
  byte; with a \<^verbatim>\<open>NULL\<close> the condition is not true.
\<close>

definition in_day_range :: "string \<Rightarrow> string \<Rightarrow> event \<Rightarrow> bool" where
  "in_day_range start_day end_day r =
     (case ev_first_seen_utc r of
        None \<Rightarrow> False
      | Some s \<Rightarrow> start_day \<le> take 10 s \<and> take 10 s \<le> end_day)"

text \<open>
  \<^verbatim>\<open>query_events_by_day_range\<close>. SQLite's function \<^verbatim>\<open>datetime\<close> is the parameter
  \<open>sql_datetime\<close>: it gives the text \<^verbatim>\<open>YYYY-MM-DD HH:MM:SS\<close> of a time value it
  recognises and \<^verbatim>\<open>NULL\<close> for any other argument. \<^verbatim>\<open>ORDER BY ... ASC\<close> puts \<^verbatim>\<open>NULL\<close>
  first; rows with equal keys are left in the order of the table.
\<close>

definition query_events_by_day_range ::
  "(string option \<Rightarrow> string option) \<Rightarrow> event list \<Rightarrow> string \<Rightarrow> string \<Rightarrow> event list" where
  "query_events_by_day_range sql_datetime tbl start_day end_day =
     sort_key (\<lambda>r. sql_datetime (ev_first_seen_utc r))
       (filter (in_day_range start_day end_day) tbl)"

text \<open>
  A stand-in for \<open>sql_datetime\<close> in examples: a text of the form
  \<^verbatim>\<open>YYYY-MM-DD HH:MM:SS\<close> is its own key and every other text has none. This is what
  SQLite computes for a valid time in that form and for the timestamps that the poller
  writes (that form followed by \<^verbatim>\<open> UTC\<close>, which is not one of SQLite's time zone
  indicators \<^verbatim>\<open>[+-]HH:MM\<close> and \<^verbatim>\<open>Z\<close>).
\<close>

definition is_digit :: "char \<Rightarrow> bool" where
  "is_digit c = (c \<in> set ''0123456789'')"

definition iso_seconds :: "string \<Rightarrow> bool" where
  "iso_seconds s =
     (length s = 19 \<and>
      list_all (\<lambda>i. is_digit (s ! i)) [0, 1, 2, 3, 5, 6, 8, 9, 11, 12, 14, 15, 17, 18] \<and>
      s ! 4 = CHR ''-'' \<and> s ! 7 = CHR ''-'' \<and> s ! 10 = CHR '' '' \<and>
      s ! 13 = CHR '':'' \<and> s ! 16 = CHR '':'')"

definition datetime_plain :: "string option \<Rightarrow> string option" where
  "datetime_plain v =
     (case v of
        None \<Rightarrow> None
      | Some s \<Rightarrow> (if iso_seconds s then Some s else None))"

section \<open>ReportAggregator (publish\_adsb\_report.py)\<close>

subsection \<open>The dates of Python's \<^verbatim>\<open>datetime\<close> module\<close>

record date =
  year :: int
  month :: int
  day :: int

record datetime =
  dt_date :: date
  hour :: int
  minute :: int
  second :: int

definition is_leap :: "int \<Rightarrow> bool" where
  "is_leap y = (y mod 4 = 0 \<and> (y mod 100 \<noteq> 0 \<or> y mod 400 = 0))"

definition days_before_year :: "int \<Rightarrow> int" where
  "days_before_year y = (y - 1) * 365 + (y - 1) div 4 - (y - 1) div 100 + (y - 1) div 400"

definition days_in_month :: "int \<Rightarrow> int \<Rightarrow> int" where
  "days_in_month y m =
     (if m = 2 \<and> is_leap y then 29
      else [31, 28, 31, 30, 31, 30, 31, 31, 30, 31, 30, 31] ! nat (m - 1))"

definition days_before_month :: "int \<Rightarrow> int \<Rightarrow> int" where
  "days_before_month y m =
     [0, 31, 59, 90, 120, 151, 181, 212, 243, 273, 304, 334] ! nat (m - 1) +
     (if 2 < m \<and> is_leap y then 1 else 0)"

definition toordinal :: "date \<Rightarrow> int" where
  "toordinal d = days_before_year (year d) + days_before_month (year d) (month d) + day d"

text \<open>The day with a given ordinal, day 1 being 0001-01-01, by the cycles of 400, 100, 4 and 1 years.\<close>

definition fromordinal :: "int \<Rightarrow> date" where
  "fromordinal n0 =
     (let n = n0 - 1;
          n400 = n div 146097; n = n mod 146097;
          n100 = n div 36524; n = n mod 36524;
          n4 = n div 1461; n = n mod 1461;
          n1 = n div 365; n = n mod 365;
          y = n400 * 400 + 1 + n100 * 100 + n4 * 4 + n1
      in if n1 = 4 \<or> n100 = 4 then \<lparr>year = y - 1, month = 12, day = 31\<rparr>
         else
           (let m = (n + 50) div 32;
                preceding = days_before_month y m
            in if n < preceding
               then \<lparr>year = y, month = m - 1,
                     day = n - (preceding - days_in_month y (m - 1)) + 1\<rparr>
               else \<lparr>year = y, month = m, day = n - preceding + 1\<rparr>))"

definition max_ordinal :: int where
  "max_ordinal = 3652059"   \<comment> \<open>9999-12-31\<close>

text \<open>\<^verbatim>\<open>date(y, m, d)\<close>\<close>

definition make_date :: "int \<Rightarrow> int \<Rightarrow> int \<Rightarrow> error + date" where
  "make_date y m d =
     (if 1 \<le> y \<and> y \<le> 9999 \<and> 1 \<le> m \<and> m \<le> 12 \<and> 1 \<le> d \<and> d \<le> days_in_month y m
      then Inr \<lparr>year = y, month = m, day = d\<rparr> else Inl ValueError)"

text \<open>\<^verbatim>\<open>d + timedelta(days=k)\<close>\<close>

definition add_days :: "date \<Rightarrow> int \<Rightarrow> error + date" where
  "add_days d k =
     (let n = toordinal d + k
      in if 0 < n \<and> n \<le> max_ordinal then Inr (fromordinal n) else Inl OverflowError)"

definition weekday :: "date \<Rightarrow> int" where
  "weekday d = (toordinal d + 6) mod 7"

subsection \<open>\<^verbatim>\<open>strftime\<close>\<close>

definition digit :: "nat \<Rightarrow> char" where
  "digit n = ''0123456789'' ! n"

definition two_digits :: "int \<Rightarrow> string" where
  "two_digits n = [digit (nat n div 10 mod 10), digit (nat n mod 10)]"

fun decimal :: "nat \<Rightarrow> string" where
  "decimal n = (if n < 10 then [digit n] else decimal (n div 10) @ [digit (n mod 10)])"

text \<open>
  \<^verbatim>\<open>%Y-%m-%d\<close>; \<^verbatim>\<open>%Y\<close> is the year as the C library prints it, without padding
  (with four digits from the year 1000 on).
\<close>

definition strftime_Ymd :: "date \<Rightarrow> string" where
  "strftime_Ymd d =
     decimal (nat (year d)) @ ''-'' @ two_digits (month d) @ ''-'' @ two_digits (day d)"

text \<open>\<^verbatim>\<open>%d.%m.%y\<close>\<close>

definition strftime_dmy :: "date \<Rightarrow> string" where
  "strftime_dmy d =
     two_digits (day d) @ ''.'' @ two_digits (month d) @ ''.'' @ two_digits (year d mod 100)"

text \<open>\<^verbatim>\<open>%m.%y\<close>\<close>

definition strftime_my :: "date \<Rightarrow> string" where
  "strftime_my d = two_digits (month d) @ ''.'' @ two_digits (year d mod 100)"

text \<open>The arrow U+2192 between the two days of the weekly label, in UTF-8.\<close>

definition arrow :: string where
  "arrow = [CHR 0xE2, CHR 0x86, CHR 0x92]"

subsection \<open>\<^verbatim>\<open>get_period_bounds\<close>\<close>

definition get_period_bounds :: "string \<Rightarrow> datetime \<Rightarrow> error + (string \<times> string \<times> string)" where
  "get_period_bounds period now_local =
     (let today = dt_date now_local in
      if period = ''daily'' then
        Inr (strftime_Ymd today, strftime_Ymd today, strftime_dmy today)
      else if period = ''weekly'' then
        (case add_days today (- weekday today) of
           Inl e \<Rightarrow> Inl e
         | Inr start_day \<Rightarrow>
             (case add_days start_day 6 of
                Inl e \<Rightarrow> Inl e
              | Inr end_day \<Rightarrow>
                  Inr (strftime_Ymd start_day, strftime_Ymd end_day,
                       strftime_dmy start_day @ '' '' @ arrow @ '' '' @ strftime_dmy end_day)))
      else if period = ''monthly'' then
        (let start_day = today\<lparr>day := 1\<rparr> in
         case (if month start_day = 12 then make_date (year start_day + 1) 1 1
               else make_date (year start_day) (month start_day + 1) 1) of
           Inl e \<Rightarrow> Inl e
         | Inr next_month \<Rightarrow>
             (case add_days next_month (- 1) of
                Inl e \<Rightarrow> Inl e
              | Inr end_day \<Rightarrow>
                  Inr (strftime_Ymd start_day, strftime_Ymd end_day, strftime_my start_day)))
      else Inr (strftime_Ymd today, strftime_Ymd today, strftime_dmy today))"

section \<open>Example values\<close>

definition unit_square :: polygon where
  "unit_square = [[(0, 0), (0, 1), (1, 1), (1, 0)]]"

definition square_10 :: ring where "square_10 = [(0, 0), (0, 10), (10, 10), (10, 0)]"

definition hole_4_6 :: ring where "hole_4_6 = [(4, 4), (4, 6), (6, 6), (6, 4)]"

definition thin_ring :: ring where
  "thin_ring = [(2 / 10 ^ 12, 0), (1 / 10 ^ 12, 1), (5, 5)]"

definition centred_square :: polygon where
  "centred_square = [[(- 1, - 1), (- 1, 1), (1, 1), (1, - 1)]]"

definition blank_aircraft :: aircraft where
  "blank_aircraft = \<lparr>hex = ''abc123'', flight = [], lat = None, lon = None, alt_baro = None,
     gs = None, ts = None, reg = None, squawk = None, ground = None, model_desc = None,
     model_t = None, is_mil = True\<rparr>"

definition no_alerts :: debounce where
  "no_alerts = Map.empty"

definition abc123 :: aircraft where
  "abc123 = \<lparr>hex = ''abc123'', flight = ''IAM1234'', lat = Some 45, lon = Some 9,
     alt_baro = Some 30000, gs = Some 420, ts = None, reg = Some ''MM62222'', squawk = None,
     ground = Some False, model_desc = None, model_t = Some ''C130'', is_mil = True\<rparr>"

definition example_args :: config where
  "example_args = \<lparr>interval = 60, mil_cooldown = 1800, polygons = []\<rparr>"

definition feed_abc123 :: json where
  "feed_abc123 = JObj [(''ac'', JArr [JObj [(''hex'', JStr ''abc123'')]])]"

definition sighting_env :: "string \<Rightarrow> real \<Rightarrow> cycle_env" where
  "sighting_env ns t =
     \<lparr>rate_guard = None, http = (\<lambda>attempt. Returns feed_abc123), t0 = t, now_str = ns,
      loop_clock = (\<lambda>k. t), t_end = t\<rparr>"

definition alert_out :: "string \<Rightarrow> real \<Rightarrow> cycle_out" where
  "alert_out ns t =
     \<lparr>out_log = [],
      out_alerts = [\<lparr>alert_hex = ''abc123'', alert_time = t, alert_msg = msg_lines abc123\<rparr>],
      out_rows = [make_row ns abc123], out_csv_append = Some [make_row ns abc123],
      out_sleep = 60\<rparr>"

definition silent_out :: cycle_out where
  "silent_out =
     \<lparr>out_log = [], out_alerts = [], out_rows = [], out_csv_append = None, out_sleep = 60\<rparr>"


definition blank_event :: event where
  "blank_event = \<lparr>ev_first_seen_utc = None, ev_hex = None, ev_callsign = None, ev_reg = None,
     ev_model_t = None, ev_lat = None, ev_lon = None, ev_alt_ft = None, ev_gs_kt = None,
     ev_squawk = None, ev_ground = None\<rparr>"

definition short_row :: event where
  "short_row = blank_event\<lparr>ev_first_seen_utc := Some ''2024-03-15 12:00:00 UTC''\<rparr>"

definition noon_event :: event where
  "noon_event = blank_event\<lparr>ev_first_seen_utc := Some ''2024-03-15 12:00:00 UTC'',
     ev_hex := Some ''abc123'', ev_callsign := Some ''IAM1234''\<rparr>"

definition morning_event :: event where
  "morning_event = blank_event\<lparr>ev_first_seen_utc := Some ''2024-03-15 08:00:00 UTC'',
     ev_hex := Some ''abc123'', ev_callsign := Some ''IAM1234''\<rparr>"

definition noon_again :: event where
  "noon_again = noon_event\<lparr>ev_callsign := Some ''OTHER''\<rparr>"

section \<open>Theorems: GeofenceFilter\<close>

lemmas ring_eval = point_in_ring_def edge_step_def eps_def upt_rec Let_def

text \<open>
  C8. For every polygon set, empty or not, a point whose lat or lon is unknown
  (\<^verbatim>\<open>None\<close>) is never contained: \<open>in_any_polygon\<close> returns false, without raising,
  whenever lat is \<^verbatim>\<open>None\<close> or lon is \<^verbatim>\<open>None\<close>.
\<close>

theorem in_any_polygon_unknown_position:
  "in_any_polygon None lo polys = Inr False \<and>
   in_any_polygon la None polys = Inr False"
  by (cases la) simp_all

lemma for_holes_hit:
  "hole \<in> set holes \<Longrightarrow> point_in_ring p hole = Inr True \<Longrightarrow> for_holes p holes \<noteq> Inr True"
  by (induction holes) (auto split: sum.splits bool.splits)

lemma for_holes_returns:
  "\<forall>h \<in> set holes. \<exists>b. point_in_ring p h = Inr b \<Longrightarrow> \<exists>b. for_holes p holes = Inr b"
  by (induction holes) (auto split: sum.splits bool.splits)

text \<open>
  C4. With the unit square, outer ring (0,0), (0,1), (1,1), (1,0), the point (0.5, 0.5)
  is contained and the point (2, 2) is not. For any polygon, a point that is inside
  the outer ring and inside one of the declared holes is not contained: the test never
  returns true, and it returns false when the ring test of every hole returns.
\<close>

theorem ray_casting_containment:
  "point_in_polygon (1 / 2, 1 / 2) unit_square = Inr True \<and>
   point_in_polygon (2, 2) unit_square = Inr False \<and>
   (point_in_ring p outer = Inr True \<longrightarrow> hole \<in> set holes \<longrightarrow>
    point_in_ring p hole = Inr True \<longrightarrow>
      point_in_polygon p (outer # holes) \<noteq> Inr True \<and>
      ((\<forall>h \<in> set holes. \<exists>b. point_in_ring p h = Inr b) \<longrightarrow>
         point_in_polygon p (outer # holes) = Inr False))"
proof (intro conjI impI)
  show "point_in_polygon (1 / 2, 1 / 2) unit_square = Inr True"
    by (simp add: unit_square_def ring_eval)
  show "point_in_polygon (2, 2) unit_square = Inr False"
    by (simp add: unit_square_def ring_eval)
next
  assume o: "point_in_ring p outer = Inr True" and h: "hole \<in> set holes"
    and hit: "point_in_ring p hole = Inr True"
  from for_holes_hit [OF h hit] o
  show ne: "point_in_polygon p (outer # holes) \<noteq> Inr True" by simp
  assume "\<forall>h \<in> set holes. \<exists>b. point_in_ring p h = Inr b"
  from for_holes_returns [OF this] obtain b where "for_holes p holes = Inr b" ..
  with ne o show "point_in_polygon p (outer # holes) = Inr False" by (cases b) simp_all
qed

theorem ray_casting_containment_witness:
  "point_in_ring (5, 5) square_10 = Inr True \<and> hole_4_6 \<in> set [hole_4_6] \<and>
   point_in_ring (5, 5) hole_4_6 = Inr True \<and>
   point_in_polygon (5, 5) [square_10, hole_4_6] = Inr False"
proof -
  have o: "point_in_ring (5, 5) square_10 = Inr True"
    by (simp add: square_10_def ring_eval)
  have hit: "point_in_ring (5, 5) hole_4_6 = Inr True"
    by (simp add: hole_4_6_def ring_eval)
  have m: "hole_4_6 \<in> set [hole_4_6]" by simp
  have t: "\<forall>h \<in> set [hole_4_6]. \<exists>b. point_in_ring (5, 5) h = Inr b"
    using hit by auto
  from ray_casting_containment [of "(5, 5)" square_10 hole_4_6 "[hole_4_6]"] o hit m t
  have "point_in_polygon (5, 5) [square_10, hole_4_6] = Inr False" by blast
  with o hit m show ?thesis by blast
qed

text \<open>
  The ring test returns on every ring none of whose edges has the vertical span
  \<open>- eps\<close>: that span alone makes the denominator zero.
\<close>

lemma edge_step_returns:
  "fst (ring ! ((i + 1) mod length ring)) - fst (ring ! i) + eps \<noteq> 0 \<Longrightarrow>
   \<exists>b. edge_step p ring i inside = Inr b"
  by (simp add: edge_step_def Let_def)

lemma for_edges_returns:
  "\<forall>i \<in> set idx. fst (ring ! ((i + 1) mod length ring)) - fst (ring ! i) + eps \<noteq> 0 \<Longrightarrow>
   \<exists>b. for_edges p ring idx inside = Inr b"
proof (induction idx arbitrary: inside)
  case Nil
  then show ?case by simp
next
  case (Cons i idx)
  then obtain b where "edge_step p ring i inside = Inr b"
    using edge_step_returns [of ring i p inside] by auto
  with Cons show ?case by simp
qed

lemma point_in_ring_returns:
  "\<forall>i < length ring. fst (ring ! ((i + 1) mod length ring)) - fst (ring ! i) + eps \<noteq> 0 \<Longrightarrow>
   \<exists>b. point_in_ring p ring = Inr b"
  unfolding point_in_ring_def by (rule for_edges_returns) simp

text \<open>
  C10. \<open>point_in_polygon\<close> returns false on a polygon with an empty list of rings,
  and on one whose only ring is empty. The second half of the claim, that
  \<open>point_in_ring\<close> never divides by zero, does not hold of the code: the edge from
  latitude \<open>2e-12\<close> to latitude \<open>1e-12\<close> straddles the latitude \<open>1e-12\<close> of the point,
  its denominator \<open>yj - yi + 1e-12\<close> is zero, and the test raises
  \<^verbatim>\<open>ZeroDivisionError\<close>, also through \<open>in_any_polygon\<close> and the geofence step of
  \<open>main\<close>, where nothing catches it. The two latitudes are the float \<^verbatim>\<open>1e-12\<close> and
  its double, so that the float arithmetic gives the denominator zero as well.
\<close>

theorem point_in_ring_division_by_zero:
  "point_in_polygon p [] = Inr False \<and>
   point_in_polygon p [[]] = Inr False \<and>
   point_in_ring (1 / 10 ^ 12, 1 / 2) thin_ring = Inl ZeroDivisionError \<and>
   in_any_polygon (Some (1 / 10 ^ 12)) (Some (1 / 2)) [[thin_ring]] = Inl ZeroDivisionError \<and>
   geofence_step [[thin_ring]] [blank_aircraft\<lparr>lat := Some (1 / 10 ^ 12), lon := Some (1 / 2)\<rparr>]
     = Inl ZeroDivisionError"
  by (simp add: thin_ring_def ring_eval geofence_step_def geofence_keep_def)

section \<open>Theorems: Poller\<close>

lemma filter_aircraft_kept:
  "filter_aircraft polys acs = Inr kept \<Longrightarrow> ac \<in> set kept \<Longrightarrow> geofence_keep polys ac = Inr True"
  by (induction acs arbitrary: kept) (auto split: sum.splits if_splits)

text \<open>
  C9. With a non-empty polygon set, the geofence step discards every observation
  whose lat is 0.0 or whose lon is 0.0, because the filter tests the truthiness of the
  coordinates: the condition is false without a call of the containment test, and no
  result of the step holds the observation. The witness is a point of latitude 0 that
  lies inside the configured square.
\<close>

theorem geofence_discards_zero_coordinates:
  "polys \<noteq> [] \<Longrightarrow> lat ac = Some 0 \<or> lon ac = Some 0 \<Longrightarrow>
   geofence_keep polys ac = Inr False \<and>
   (\<forall>acs kept. geofence_step polys acs = Inr kept \<longrightarrow> ac \<notin> set kept)"
proof
  assume ne: "polys \<noteq> []" and z: "lat ac = Some 0 \<or> lon ac = Some 0"
  from z show k: "geofence_keep polys ac = Inr False"
    by (auto simp: geofence_keep_def)
  show "\<forall>acs kept. geofence_step polys acs = Inr kept \<longrightarrow> ac \<notin> set kept"
  proof (intro allI impI notI)
    fix acs kept
    assume "geofence_step polys acs = Inr kept" and "ac \<in> set kept"
    with ne have "geofence_keep polys ac = Inr True"
      by (auto simp: geofence_step_def dest: filter_aircraft_kept)
    with k show False by simp
  qed
qed

theorem geofence_discards_zero_coordinates_witness:
  "centred_square \<noteq> [] \<and>
   lat (blank_aircraft\<lparr>lat := Some 0, lon := Some (1 / 2)\<rparr>) = Some 0 \<and>
   in_any_polygon (Some 0) (Some (1 / 2)) [centred_square] = Inr True \<and>
   geofence_step [centred_square] [blank_aircraft\<lparr>lat := Some 0, lon := Some (1 / 2)\<rparr>] = Inr []"
proof -
  let ?ac = "blank_aircraft\<lparr>lat := Some 0, lon := Some (1 / 2)\<rparr>"
  have z: "lat ?ac = Some 0 \<or> lon ?ac = Some 0" by simp
  have ne: "[centred_square] \<noteq> []" by simp
  from geofence_discards_zero_coordinates [OF ne z]
  have "geofence_keep [centred_square] ?ac = Inr False" by blast
  then have "geofence_step [centred_square] [?ac] = Inr []"
    by (simp add: geofence_step_def)
  moreover have "in_any_polygon (Some 0) (Some (1 / 2)) [centred_square] = Inr True"
    by (simp add: centred_square_def ring_eval)
  ultimately show ?thesis by (simp add: centred_square_def)
qed

subsection \<open>DebounceTracker\<close>

lemma debounce_inv_start: "debounce_inv c Map.empty []"
  by (simp add: debounce_inv_def spaced_def)

lemma spaced_snoc:
  assumes "spaced c ks" and "\<forall>k \<in> set ks. fst k = h \<longrightarrow> c \<le> \<bar>t - snd k\<bar>"
  shows "spaced c (ks @ [(h, t)])"
  unfolding spaced_def
proof (intro allI impI)
  fix i j
  assume a: "i < j \<and> j < length (ks @ [(h, t)]) \<and> fst ((ks @ [(h, t)]) ! i) = fst ((ks @ [(h, t)]) ! j)"
  show "c \<le> \<bar>snd ((ks @ [(h, t)]) ! j) - snd ((ks @ [(h, t)]) ! i)\<bar>"
  proof (cases "j < length ks")
    case True
    with a have "i < length ks" by simp
    with True a assms(1) show ?thesis
      by (auto simp: spaced_def nth_append)
  next
    case False
    with a have j: "j = length ks" and i: "i < length ks" by auto
    from i have "ks ! i \<in> set ks" by simp
    moreover from a i j have "fst (ks ! i) = h" by (simp add: nth_append)
    ultimately have "c \<le> \<bar>t - snd (ks ! i)\<bar>" using assms(2) by blast
    with i j show ?thesis by (simp add: nth_append)
  qed
qed

lemma debounce_inv_alert:
  assumes inv: "debounce_inv (real_of_int c) last_mil_alert ks"
    and fire: "\<not> in_cooldown c last_mil_alert h now_ts"
  shows "debounce_inv (real_of_int c) (last_mil_alert(h \<mapsto> now_ts)) (ks @ [(h, now_ts)])"
proof -
  from fire have gap: "real_of_int c \<le> now_ts - last_alert_get last_mil_alert h"
    by (simp add: in_cooldown_def)
  have latest: "\<forall>h'. (last_mil_alert(h \<mapsto> now_ts)) h' = map_of (rev (ks @ [(h, now_ts)])) h'"
    using inv by (simp add: debounce_inv_def)
  have earlier: "\<forall>k \<in> set ks. fst k = h \<longrightarrow> real_of_int c \<le> \<bar>now_ts - snd k\<bar>"
  proof (intro ballI impI)
    fix k assume k: "k \<in> set ks" and h: "fst k = h"
    show "real_of_int c \<le> \<bar>now_ts - snd k\<bar>"
    proof (cases "0 < real_of_int c")
      case True
      with inv k h obtain t' where "last_mil_alert h = Some t'" and "snd k \<le> t'"
        by (auto simp: debounce_inv_def)
      with gap show ?thesis by (simp add: last_alert_get_def)
    next
      case False
      then show ?thesis by simp
    qed
  qed
  have mono: "0 < real_of_int c \<longrightarrow>
      (\<forall>k \<in> set (ks @ [(h, now_ts)]). \<exists>t'. (last_mil_alert(h \<mapsto> now_ts)) (fst k) = Some t' \<and> snd k \<le> t')"
  proof (intro impI ballI)
    fix k assume pos: "0 < real_of_int c" and k: "k \<in> set (ks @ [(h, now_ts)])"
    show "\<exists>t'. (last_mil_alert(h \<mapsto> now_ts)) (fst k) = Some t' \<and> snd k \<le> t'"
    proof (cases "k \<in> set ks")
      case True
      with inv pos obtain t' where t': "last_mil_alert (fst k) = Some t'" "snd k \<le> t'"
        by (auto simp: debounce_inv_def)
      show ?thesis
      proof (cases "fst k = h")
        case True
        with t' gap pos show ?thesis by (simp add: last_alert_get_def)
      next
        case False
        with t' show ?thesis by simp
      qed
    next
      case False
      with k show ?thesis by simp
    qed
  qed
  from inv have "spaced (real_of_int c) ks" by (simp add: debounce_inv_def)
  from spaced_snoc [OF this earlier] latest mono show ?thesis
    unfolding debounce_inv_def by blast
qed

lemma for_aircraft_inv:
  "debounce_inv (real_of_int c) last_mil_alert ks \<Longrightarrow>
   for_aircraft c ns xs last_mil_alert = (last', rows, als) \<Longrightarrow>
   debounce_inv (real_of_int c) last' (ks @ alert_keys als)"
proof (induction xs arbitrary: last_mil_alert ks rows als)
  case Nil
  then show ?case by (simp add: alert_keys_def)
next
  case (Cons x xs)
  obtain ac now_ts where x: "x = (ac, now_ts)" by (cases x)
  show ?case
  proof (cases "in_cooldown c last_mil_alert (hex ac) now_ts")
    case True
    with Cons x show ?thesis by simp
  next
    case False
    from Cons.prems(2) x False obtain r a where
      rest: "for_aircraft c ns xs (last_mil_alert(hex ac \<mapsto> now_ts)) = (last', r, a)" and
      eq: "als = \<lparr>alert_hex = hex ac, alert_time = now_ts, alert_msg = msg_lines ac\<rparr> # a"
      by (auto split: prod.splits)
    from debounce_inv_alert [OF Cons.prems(1) False]
    have "debounce_inv (real_of_int c) (last_mil_alert(hex ac \<mapsto> now_ts)) (ks @ [(hex ac, now_ts)])" .
    from Cons.IH [OF this rest] eq show ?thesis by (simp add: alert_keys_def)
  qed
qed

lemma poll_cycle_inv:
  "debounce_inv (real_of_int (mil_cooldown args)) last_mil_alert ks \<Longrightarrow>
   poll_cycle mk args env last_mil_alert = Inr (last', out) \<Longrightarrow>
   debounce_inv (real_of_int (mil_cooldown args)) last' (ks @ alert_keys (out_alerts out))"
  unfolding poll_cycle_def
  by (auto split: prod.splits sum.splits dest: for_aircraft_inv)

lemma main_loop_inv:
  "debounce_inv (real_of_int (mil_cooldown args)) last_mil_alert ks \<Longrightarrow>
   main_loop mk args envs last_mil_alert = Inr (last', outs) \<Longrightarrow>
   debounce_inv (real_of_int (mil_cooldown args)) last'
     (ks @ alert_keys (concat (map out_alerts outs)))"
proof (induction envs arbitrary: last_mil_alert ks outs)
  case Nil
  then show ?case by (simp add: alert_keys_def)
next
  case (Cons env envs)
  from Cons.prems(2) obtain l1 out outs1 where
    c: "poll_cycle mk args env last_mil_alert = Inr (l1, out)" and
    r: "main_loop mk args envs l1 = Inr (last', outs1)" and
    o: "outs = out # outs1"
    by (auto split: sum.splits prod.splits)
  from poll_cycle_inv [OF Cons.prems(1) c]
  have "debounce_inv (real_of_int (mil_cooldown args)) l1 (ks @ alert_keys (out_alerts out))" .
  from Cons.IH [OF this r] o show ?case by (simp add: alert_keys_def)
qed

text \<open>
  C1. For every identifier and every sequence of sightings that the loop of \<open>main\<close>
  processes, starting with the empty debounce map, no two alerts for the identifier
  have recorded times (the \<^verbatim>\<open>now_ts\<close> of their iterations) less than the cooldown
  apart; and the debounce map changes only with an alert: after the run it holds, for
  each identifier, the time of its latest alert, and no entry for an identifier
  without alert. A run that an exception ends has emitted the alerts of its completed
  cycles, since an exception can only leave a cycle before the loop over the aircraft.
\<close>

theorem debounce_alert_spacing:
  "main_loop mk args envs Map.empty = Inr (last', outs) \<Longrightarrow>
   (\<forall>i j. i < j \<and> j < length (concat (map out_alerts outs)) \<and>
      alert_hex (concat (map out_alerts outs) ! i) = alert_hex (concat (map out_alerts outs) ! j)
      \<longrightarrow> real_of_int (mil_cooldown args)
            \<le> \<bar>alert_time (concat (map out_alerts outs) ! j) -
                alert_time (concat (map out_alerts outs) ! i)\<bar>) \<and>
   (\<forall>h. last' h = map_of (rev (alert_keys (concat (map out_alerts outs)))) h)"
proof -
  assume run: "main_loop mk args envs Map.empty = Inr (last', outs)"
  let ?als = "concat (map out_alerts outs)"
  from main_loop_inv [OF debounce_inv_start run]
  have inv: "debounce_inv (real_of_int (mil_cooldown args)) last' (alert_keys ?als)" by simp
  then have sp: "spaced (real_of_int (mil_cooldown args)) (alert_keys ?als)"
    and latest: "\<forall>h. last' h = map_of (rev (alert_keys ?als)) h"
    by (simp_all add: debounce_inv_def)
  have "\<forall>i j. i < j \<and> j < length ?als \<and> alert_hex (?als ! i) = alert_hex (?als ! j)
      \<longrightarrow> real_of_int (mil_cooldown args) \<le> \<bar>alert_time (?als ! j) - alert_time (?als ! i)\<bar>"
  proof (intro allI impI)
    fix i j
    assume a: "i < j \<and> j < length ?als \<and> alert_hex (?als ! i) = alert_hex (?als ! j)"
    then have "i < length ?als" "j < length ?als" by auto
    with a sp [unfolded spaced_def, rule_format, of i j]
    show "real_of_int (mil_cooldown args) \<le> \<bar>alert_time (?als ! j) - alert_time (?als ! i)\<bar>"
      by (simp add: alert_keys_def)
  qed
  with latest show ?thesis by blast
qed

lemma py_round_int: "py_round (real_of_int k) = k"
  by (simp add: py_round_def)

lemma example_run:
  "main_loop (\<lambda>j. Some abc123) example_args
     [sighting_env ''2024-03-15 10:53:20 UTC'' 1710500000,
      sighting_env ''2024-03-15 11:03:20 UTC'' 1710500600,
      sighting_env ''2024-03-15 11:23:21 UTC'' 1710501801] Map.empty =
   Inr ([''abc123'' \<mapsto> 1710501801],
        [alert_out ''2024-03-15 10:53:20 UTC'' 1710500000, silent_out,
         alert_out ''2024-03-15 11:23:21 UTC'' 1710501801])"
  using py_round_int [of 60]
  by (simp add: poll_cycle_def fetch_military_def HTTP_RETRIES_def upt_rec sighting_env_def
      feed_abc123_def example_args_def geofence_step_def List.map_filter_simps
      in_cooldown_def last_alert_get_def alert_out_def silent_out_def abc123_def)

theorem debounce_alert_spacing_witness:
  "main_loop (\<lambda>j. Some abc123) example_args
     [sighting_env ''2024-03-15 10:53:20 UTC'' 1710500000,
      sighting_env ''2024-03-15 11:03:20 UTC'' 1710500600,
      sighting_env ''2024-03-15 11:23:21 UTC'' 1710501801] Map.empty =
   Inr ([''abc123'' \<mapsto> 1710501801],
        [alert_out ''2024-03-15 10:53:20 UTC'' 1710500000, silent_out,
         alert_out ''2024-03-15 11:23:21 UTC'' 1710501801]) \<and>
   real_of_int (mil_cooldown example_args) \<le> \<bar>1710501801 - 1710500000\<bar>"
proof -
  note sp = debounce_alert_spacing [OF example_run, THEN conjunct1, rule_format, of 0 1]
  have "real_of_int (mil_cooldown example_args) \<le> \<bar>1710501801 - 1710500000\<bar>"
    using sp by (simp add: alert_out_def silent_out_def)
  with example_run show ?thesis by simp
qed

text \<open>
  C2, as stated: the first sighting of an aircraft always fires, whatever the time and
  the cooldown. The code reads an absent entry as the time 0, not as infinitely long
  ago: with a cooldown of 2000000000 seconds the first sighting at the time 1700000000
  is in cooldown and gives no alert and no row.
\<close>

theorem first_sighting_counterexample:
  "no_alerts ''abc123'' = None \<and>
   in_cooldown 2000000000 no_alerts ''abc123'' 1700000000 \<and>
   for_aircraft 2000000000 ''2023-11-14 22:13:20 UTC'' [(abc123, 1700000000)] no_alerts =
     (no_alerts, [], [])"
  by (simp add: no_alerts_def in_cooldown_def last_alert_get_def abc123_def)

text \<open>
  C2, amended. For an identifier with no recorded alert the decision is positive
  exactly when the cooldown is at most the current time \<^verbatim>\<open>now_ts\<close> (seconds since
  the epoch): then the loop emits the alert and the row and records \<^verbatim>\<open>now_ts\<close>;
  otherwise it does nothing.
\<close>

theorem first_sighting_fires_iff:
  "last_mil_alert (hex ac) = None \<Longrightarrow>
   (\<not> in_cooldown c last_mil_alert (hex ac) now_ts) = (real_of_int c \<le> now_ts) \<and>
   for_aircraft c ns [(ac, now_ts)] last_mil_alert =
     (if real_of_int c \<le> now_ts
      then (last_mil_alert(hex ac \<mapsto> now_ts), [make_row ns ac],
            [\<lparr>alert_hex = hex ac, alert_time = now_ts, alert_msg = msg_lines ac\<rparr>])
      else (last_mil_alert, [], []))"
  by (auto simp: in_cooldown_def last_alert_get_def)

theorem first_sighting_fires_iff_witness:
  "no_alerts (hex abc123) = None \<and> real_of_int 1800 \<le> 1700000000 \<and>
   \<not> in_cooldown 1800 no_alerts (hex abc123) 1700000000"
proof -
  have n: "no_alerts (hex abc123) = None" by (simp add: no_alerts_def)
  from first_sighting_fires_iff [of no_alerts abc123 1800 1700000000] n show ?thesis by simp
qed

subsection \<open>Feed errors\<close>




section \<open>Theorems: EventStore\<close>

lemma insert_or_ignore_keeps: "x \<in> set tbl \<Longrightarrow> x \<in> set (insert_or_ignore tbl r)"
  by (simp add: insert_or_ignore_def)

lemma insert_rows_keeps: "x \<in> set tbl \<Longrightarrow> x \<in> set (insert_rows rows tbl)"
  by (induction rows arbitrary: tbl) (simp_all add: insert_or_ignore_keeps)

lemma insert_or_ignore_conflict:
  "keyed r \<Longrightarrow> \<exists>old \<in> set (insert_or_ignore tbl r). key_conflict r old"
  by (auto simp: insert_or_ignore_def list_ex_iff keyed_def key_conflict_def)

lemma insert_rows_conflict:
  "r \<in> set rows \<Longrightarrow> keyed r \<Longrightarrow> \<exists>old \<in> set (insert_rows rows tbl). key_conflict r old"
proof (induction rows arbitrary: tbl)
  case Nil
  then show ?case by simp
next
  case (Cons a rows)
  show ?case
  proof (cases "r = a")
    case True
    with Cons.prems obtain old where "old \<in> set (insert_or_ignore tbl a)" "key_conflict r old"
      using insert_or_ignore_conflict [of a tbl] by auto
    then show ?thesis using insert_rows_keeps [of old "insert_or_ignore tbl a" rows] by auto
  next
    case False
    with Cons show ?thesis by simp
  qed
qed

lemma insert_rows_all_conflict:
  "\<forall>r \<in> set rows. \<exists>old \<in> set tbl. key_conflict r old \<Longrightarrow> insert_rows rows tbl = tbl"
  by (induction rows) (simp_all add: insert_or_ignore_def list_ex_iff)

lemma insert_rows_idempotent:
  assumes "\<forall>r \<in> set rows. keyed r"
  shows "insert_rows rows (insert_rows rows tbl) = insert_rows rows tbl"
  using assms by (intro insert_rows_all_conflict ballI insert_rows_conflict) auto

lemma csv_to_db_insert_rows: "csv_to_db (Some rows) tbl = insert_rows rows tbl"
  by (cases rows) simp_all

text \<open>
  Where every row of the CSV has both columns of the key, a second ingestion finds each
  row in conflict with a stored one and leaves the table, contents and order, as the
  first ingestion left it, whatever the table held before; so does a second run with no
  CSV file.
\<close>

lemma reingest_keyed_rows:
  "csv_to_db None (init_db (Some (csv_to_db None (init_db db)))) = csv_to_db None (init_db db) \<and>
   ((\<forall>r \<in> set rows. keyed r) \<longrightarrow>
    csv_to_db (Some rows) (init_db (Some (csv_to_db (Some rows) (init_db db))))
      = csv_to_db (Some rows) (init_db db))"
  using insert_rows_idempotent [of rows "init_db db"]
  by (simp add: csv_to_db_insert_rows)

lemma reingest_keyed_rows_example:
  "keyed noon_event \<and> keyed noon_again \<and> keyed morning_event \<and>
   csv_to_db (Some [noon_event, noon_again, morning_event]) (init_db None)
     = [noon_event, morning_event] \<and>
   csv_to_db (Some [noon_event, noon_again, morning_event])
       (init_db (Some [noon_event, morning_event]))
     = [noon_event, morning_event]"
  by (simp add: insert_or_ignore_def key_conflict_def keyed_def noon_event_def noon_again_def
      morning_event_def blank_event_def)

text \<open>
  C3. Ingesting an identical CSV a second time is to leave the row count and the
  content of the store as they were after the first ingestion, the insert in conflict on
  the pair (\<^verbatim>\<open>first_seen_utc\<close>, \<^verbatim>\<open>hex\<close>) being dropped; the module announces this
  deduplication in its docstring and in the line it prints. The code does not do it for
  a row without one of the two columns: a line with fewer fields than the header gives
  \<^verbatim>\<open>None\<close> for \<^verbatim>\<open>hex\<close>, the primary key of the table has no \<^verbatim>\<open>NOT NULL\<close> and never takes
  a \<^verbatim>\<open>NULL\<close> for a duplicate, and each ingestion of that CSV inserts the row again. The
  table holds one row after the first ingestion, two after the second and three after
  the third. No insertion raises.
\<close>

theorem reingest_null_key_duplicates:
  "csv_to_db (Some [short_row]) (init_db None) = [short_row] \<and>
   csv_to_db (Some [short_row]) (init_db (Some [short_row])) = [short_row, short_row] \<and>
   csv_to_db (Some [short_row]) (init_db (Some [short_row, short_row]))
     = [short_row, short_row, short_row] \<and>
   length (csv_to_db (Some [short_row])
             (init_db (Some (csv_to_db (Some [short_row]) (init_db None))))) = 2"
  by (simp add: insert_or_ignore_def key_conflict_def short_row_def blank_event_def)

text \<open>
  The range query returns the rows of the table whose first ten characters of
  \<^verbatim>\<open>first_seen_utc\<close> lie between the two days, each as often as the table has it,
  in the order of the keys that \<open>sql_datetime\<close> gives.
\<close>

lemma query_rows:
  "set (query_events_by_day_range sql_datetime tbl start_day end_day)
     = {r \<in> set tbl. in_day_range start_day end_day r} \<and>
   length (query_events_by_day_range sql_datetime tbl start_day end_day)
     = length (filter (in_day_range start_day end_day) tbl) \<and>
   sorted (map (\<lambda>r. sql_datetime (ev_first_seen_utc r))
     (query_events_by_day_range sql_datetime tbl start_day end_day))"
  by (simp add: query_events_by_day_range_def)

text \<open>
  C6. The query selects exactly the rows of the range (above). It does not return
  them by ascending timestamp: the timestamps that the poller writes have the form
  \<^verbatim>\<open>YYYY-MM-DD HH:MM:SS UTC\<close>, SQLite's \<^verbatim>\<open>datetime\<close> gives \<^verbatim>\<open>NULL\<close> for each of
  them, and \<^verbatim>\<open>ORDER BY datetime(first_seen_utc)\<close> orders nothing. A table that holds
  the row of 12:00 before the row of 08:00 is returned in that order.
\<close>

theorem query_order_unparsed_timestamps:
  "sql_datetime (Some ''2024-03-15 12:00:00 UTC'') = None \<Longrightarrow>
   sql_datetime (Some ''2024-03-15 08:00:00 UTC'') = None \<Longrightarrow>
   query_events_by_day_range sql_datetime [noon_event, morning_event] ''2024-03-15'' ''2024-03-15''
     = [noon_event, morning_event]"
  by (simp add: query_events_by_day_range_def in_day_range_def noon_event_def morning_event_def
      blank_event_def)

theorem query_order_unparsed_timestamps_witness:
  "datetime_plain (Some ''2024-03-15 12:00:00 UTC'') = None \<and>
   datetime_plain (Some ''2024-03-15 08:00:00 UTC'') = None \<and>
   datetime_plain (Some ''2024-03-15 08:00:00'') = Some ''2024-03-15 08:00:00'' \<and>
   query_events_by_day_range datetime_plain [noon_event, morning_event] ''2024-03-15'' ''2024-03-15''
     = [noon_event, morning_event]"
proof -
  have a: "datetime_plain (Some ''2024-03-15 12:00:00 UTC'') = None"
    by (simp add: datetime_plain_def iso_seconds_def)
  have b: "datetime_plain (Some ''2024-03-15 08:00:00 UTC'') = None"
    by (simp add: datetime_plain_def iso_seconds_def)
  have c: "datetime_plain (Some ''2024-03-15 08:00:00'') = Some ''2024-03-15 08:00:00''"
    by (simp add: datetime_plain_def iso_seconds_def is_digit_def)
  from query_order_unparsed_timestamps [OF a b] a b c show ?thesis by simp
qed

section \<open>Theorems: ReportAggregator\<close>

lemmas date_eval = get_period_bounds_def strftime_Ymd_def strftime_dmy_def strftime_my_def
  two_digits_def digit_def add_days_def weekday_def toordinal_def fromordinal_def
  days_before_year_def days_before_month_def days_in_month_def is_leap_def make_date_def
  max_ordinal_def Let_def

lemma decimal_2024: "decimal 2024 = ''2024''"
  by (simp add: digit_def)

text \<open>
  C5. \<open>get_period_bounds\<close> depends on the date of \<^verbatim>\<open>now_local\<close> only, not on the
  time of day. For the period daily and the date 2024-03-15, start and end are
  \<^verbatim>\<open>2024-03-15\<close> and the label is \<^verbatim>\<open>15.03.24\<close>; for weekly and 2024-03-15, a Friday,
  start is the Monday \<^verbatim>\<open>2024-03-11\<close> and end the Sunday \<^verbatim>\<open>2024-03-17\<close>; for monthly
  and 2024-12-10, start is \<^verbatim>\<open>2024-12-01\<close> and end \<^verbatim>\<open>2024-12-31\<close>, the month after
  December being January of the next year.
\<close>

theorem period_bounds_examples:
  "get_period_bounds period (now_local\<lparr>hour := h, minute := m, second := s\<rparr>)
     = get_period_bounds period now_local \<and>
   get_period_bounds ''daily'' \<lparr>dt_date = \<lparr>year = 2024, month = 3, day = 15\<rparr>, hour = h, minute = m, second = s\<rparr>
     = Inr (''2024-03-15'', ''2024-03-15'', ''15.03.24'') \<and>
   get_period_bounds ''weekly'' \<lparr>dt_date = \<lparr>year = 2024, month = 3, day = 15\<rparr>, hour = h, minute = m, second = s\<rparr>
     = Inr (''2024-03-11'', ''2024-03-17'', ''11.03.24 '' @ arrow @ '' 17.03.24'') \<and>
   get_period_bounds ''monthly'' \<lparr>dt_date = \<lparr>year = 2024, month = 12, day = 10\<rparr>, hour = h, minute = m, second = s\<rparr>
     = Inr (''2024-12-01'', ''2024-12-31'', ''12.24'')"
proof -
  have "get_period_bounds period (now_local\<lparr>hour := h, minute := m, second := s\<rparr>)
     = get_period_bounds period now_local"
    by (simp add: get_period_bounds_def)
  then show ?thesis
    by (simp add: date_eval decimal_2024 del: decimal.simps)
qed

end
